theory Spec2Isabelle
  imports Complex_Main "HOL-Library.Multiset"
begin

section \<open>The exoplanet transit notebook (exoplanet\_fit.ipynb)\<close>

text \<open>
  The notebook is a linear sequence of cells: it reads the observation table, normalises
  time, converts magnitudes to relative flux, builds and samples a transit model and
  summarises the posterior predictive light curve. A float64 array is modelled as the
  list of the real numbers it holds, and an arithmetic operation as the exact operation
  on them: the model gives which names are bound, in which order, what is defined,
  what raises and how values are ordered, not the last bits of a float64 result
  (rounding, overflow, nan/inf inputs and integer columns are outside it). A numpy
  reduction that yields nan on an empty array returns \<open>None\<close>; a Python exception is a
  value of type \<open>error\<close>.
\<close>

subsection \<open>Exceptions\<close>

datatype error =
    IndexError
  | KeyError string
  | ValueError
  | NameError string
  | TypeError
  | LibraryError string

definition bind_err :: "error + 'a \<Rightarrow> ('a \<Rightarrow> error + 'b) \<Rightarrow> error + 'b" where
  "bind_err m f = (case m of Inl e \<Rightarrow> Inl e | Inr x \<Rightarrow> f x)"

subsection \<open>numpy operations used by the notebook\<close>

text \<open>\<open>a[0]\<close>: IndexError on an empty array.\<close>

definition index0 :: "real list \<Rightarrow> error + real" where
  "index0 a = (case a of [] \<Rightarrow> Inl IndexError | x # _ \<Rightarrow> Inr x)"

text \<open>\<open>np.mean\<close>: the sum over the number of elements; nan on an empty array.\<close>

definition np_mean :: "real list \<Rightarrow> real option" where
  "np_mean a = (if a = [] then None else Some (sum_list a / real (length a)))"

text \<open>
  \<open>np.median\<close>: the middle element of the sorted array for an odd length, the mean
  of the two middle elements for an even length; nan on an empty array.
\<close>

definition np_median :: "real list \<Rightarrow> real option" where
  "np_median a =
     (if a = [] then None
      else let s = sort a; n = length s
           in Some (if odd n then s ! (n div 2)
                    else (s ! (n div 2 - 1) + s ! (n div 2)) / 2))"

text \<open>\<open>np.diff\<close>: the differences of consecutive elements, one fewer than the input.\<close>

definition np_diff :: "real list \<Rightarrow> real list" where
  "np_diff a = map2 (\<lambda>x y. y - x) a (tl a)"

text \<open>
  Elementwise product of two one-dimensional arrays with numpy's broadcasting: equal
  lengths multiply pointwise, a length-one array is stretched, anything else raises.
\<close>

definition np_mul :: "real list \<Rightarrow> real list \<Rightarrow> error + real list" where
  "np_mul a b =
     (if length a = length b then Inr (map2 (*) a b)
      else if length a = 1 then Inr (map (\<lambda>y. hd a * y) b)
      else if length b = 1 then Inr (map (\<lambda>x. x * hd b) a)
      else Inl ValueError)"

text \<open>
  \<open>np.percentile(a, q)\<close> with the default linear interpolation, for a whole-number
  percentage \<open>q\<close> as the notebook passes: the virtual index \<open>(n - 1) * q / 100\<close> into the
  sorted array is split into its integer part and its fraction, and the result
  interpolates between the element at the integer part and the next one (clipped to the
  last index). \<open>lerp100 s N\<close> is that interpolation at the virtual index \<open>N / 100\<close>.
  On an empty array \<open>np.percentile\<close> raises IndexError.
\<close>

definition lerp100 :: "real list \<Rightarrow> nat \<Rightarrow> real" where
  "lerp100 s N =
     (let k = N div 100;
          g = real (N mod 100) / 100;
          lo = s ! k;
          hi = s ! (min (k + 1) (length s - 1))
      in lo + (hi - lo) * g)"

definition np_percentile :: "real list \<Rightarrow> nat \<Rightarrow> error + real" where
  "np_percentile a q =
     (if a = [] then Inl IndexError
      else Inr (lerp100 (sort a) ((length a - 1) * q)))"

subsection \<open>Cell 5d7182a5: preprocessing\<close>

record time_prep =
  t0 :: real
  t_rel :: "real list"
  t_ref :: "real option"
  t_norm :: "real list"

text \<open>
  \<^verbatim>\<open>t0 = time[0]; t_rel = time - t0; t_ref = np.mean(t_rel); t_norm = t_rel - t_ref\<close>.
  \<open>t_ref\<close> is nan only for an empty \<open>t_rel\<close>, and then \<open>t_norm\<close> is the empty array.
\<close>

definition preprocess_time :: "real list \<Rightarrow> error + time_prep" where
  "preprocess_time time =
     bind_err (index0 time) (\<lambda>t0.
       let t_rel = map (\<lambda>t. t - t0) time;
           t_ref = np_mean t_rel;
           t_norm = (case t_ref of None \<Rightarrow> [] | Some m \<Rightarrow> map (\<lambda>t. t - m) t_rel)
       in Inr \<lparr>t0 = t0, t_rel = t_rel, t_ref = t_ref, t_norm = t_norm\<rparr>)"

record flux_prep =
  mag0 :: "real option"
  flux_rel :: "real list"
  flux_err :: "real list"

text \<open>
  \<^verbatim>\<open>mag0 = np.median(mag); flux_rel = 10**(-0.4 * (mag - mag0)) - 1.0;\<close>
  \<^verbatim>\<open>flux_err = 0.4 * np.log(10) * (flux_rel + 1) * merr\<close>.
  \<open>mag0\<close> is nan only for an empty \<open>mag\<close>, and then \<open>flux_rel\<close> is the empty array.
\<close>

definition flux_rel_of :: "real list \<Rightarrow> real option \<Rightarrow> real list" where
  "flux_rel_of mag m0 =
     (case m0 of None \<Rightarrow> []
      | Some m \<Rightarrow> map (\<lambda>x. 10 powr (- 0.4 * (x - m)) - 1.0) mag)"

definition flux_err_of :: "real list \<Rightarrow> real list \<Rightarrow> error + real list" where
  "flux_err_of fr merr = np_mul (map (\<lambda>f. 0.4 * ln 10 * (f + 1)) fr) merr"

definition preprocess_flux :: "real list \<Rightarrow> real list \<Rightarrow> error + flux_prep" where
  "preprocess_flux mag merr =
     (let m0 = np_median mag;
          fr = flux_rel_of mag m0
      in bind_err (flux_err_of fr merr) (\<lambda>fe.
           Inr \<lparr>mag0 = m0, flux_rel = fr, flux_err = fe\<rparr>))"

text \<open>The exposure time handed to the light-curve model: \<^verbatim>\<open>np.median(np.diff(t_norm))\<close>.\<close>

definition texp :: "real list \<Rightarrow> real option" where
  "texp tn = np_median (np_diff tn)"


subsection \<open>The summary of the posterior predictive light curve\<close>

text \<open>
  \<open>lc_samps\<close> is a three-dimensional array with the dimensions (chain, draw, time):
  \<open>data a ! c ! d\<close> is the light curve of draw \<open>d\<close> of chain \<open>c\<close>.
\<close>

record ndarray3 =
  shape :: "nat \<times> nat \<times> nat"
  data :: "real list list list"

definition wf_ndarray3 :: "ndarray3 \<Rightarrow> bool" where
  "wf_ndarray3 a =
     (case shape a of (nchain, ndraw, ntime) \<Rightarrow>
        length (data a) = nchain \<and>
        (\<forall>ch \<in> set (data a). length ch = ndraw \<and> (\<forall>v \<in> set ch. length v = ntime)))"

text \<open>
  A reduction over \<open>axis=(0,1)\<close> applies the reduction, for each time index \<open>j\<close>, to
  the values of all chains and draws at \<open>j\<close>, and raises what the reduction raises. It
  first merges the two reduced axes, which raises ValueError for an array with no time
  point.
\<close>

definition column :: "ndarray3 \<Rightarrow> nat \<Rightarrow> real list" where
  "column a j = map (\<lambda>v. v ! j) (concat (data a))"

fun sequence_err :: "(error + 'b) list \<Rightarrow> error + 'b list" where
  "sequence_err [] = Inr []"
| "sequence_err (r # rs) =
     (case r of Inl e \<Rightarrow> Inl e
      | Inr x \<Rightarrow> (case sequence_err rs of Inl e \<Rightarrow> Inl e | Inr xs \<Rightarrow> Inr (x # xs)))"

definition reduce_axes01 :: "(real list \<Rightarrow> error + 'b) \<Rightarrow> ndarray3 \<Rightarrow> error + 'b list" where
  "reduce_axes01 f a =
     (case shape a of (nchain, ndraw, ntime) \<Rightarrow>
        if ntime = 0 then Inl ValueError
        else sequence_err (map (\<lambda>j. f (column a j)) [0..<ntime]))"

definition median_axes01 :: "ndarray3 \<Rightarrow> error + real option list" where
  "median_axes01 a = reduce_axes01 (\<lambda>c. Inr (np_median c)) a"

definition percentile_axes01 :: "ndarray3 \<Rightarrow> nat \<Rightarrow> error + real list" where
  "percentile_axes01 a q = reduce_axes01 (\<lambda>c. np_percentile c q) a"

record summary =
  lc_median :: "real option list"
  lc_lo :: "real list"
  lc_hi :: "real list"

text \<open>
  \<^verbatim>\<open>lc_median = np.median(lc_samps, axis=(0,1))\<close>,
  \<^verbatim>\<open>lc_lo, lc_hi = np.percentile(lc_samps, [16,84], axis=(0,1))\<close>, in this order.
\<close>

definition summarize :: "ndarray3 \<Rightarrow> error + summary" where
  "summarize lc_samps =
     bind_err (median_axes01 lc_samps) (\<lambda>md.
     bind_err (percentile_axes01 lc_samps 16) (\<lambda>lo.
     bind_err (percentile_axes01 lc_samps 84) (\<lambda>hi.
       Inr \<lparr>lc_median = md, lc_lo = lo, lc_hi = hi\<rparr>)))"

subsection \<open>Values, the namespace and the external libraries\<close>

text \<open>
  A data frame holds its columns by name; \<open>df[c].values\<close> raises KeyError for a
  missing column.
\<close>

type_synonym dataframe = "(string \<times> real list) list"

definition df_values :: "dataframe \<Rightarrow> string \<Rightarrow> error + real list" where
  "df_values df c = (case map_of df c of None \<Rightarrow> Inl (KeyError c) | Some v \<Rightarrow> Inr v)"

text \<open>
  The PyMC model is data: a list of named variables whose parameters are symbolic
  tensor expressions over earlier variables. The light curve of the orbit is computed
  by the external engine and stays a symbol here.
\<close>

datatype texpr =
    RV string
  | Const "real option"
  | ConstArray "real list"
  | Exp texpr
  | Add texpr texpr
  | Mul texpr texpr
  | Subtensor texpr nat
  | Sum_last texpr
  | Light_curve texpr texpr orbit texpr "real list" "real option"
and orbit =
    KeplerianOrbit texpr texpr texpr texpr texpr

datatype dist =
    Normal texpr texpr
  | Uniform texpr texpr
  | LogNormal texpr texpr
  | ImpactParameter texpr
  | QuadLimbDark "real list"

datatype rv =
    FreeRV string dist
  | Deterministic string texpr
  | ObservedRV string dist "real list"

type_synonym pm_model = "rv list"

fun rv_name :: "rv \<Rightarrow> string" where
  "rv_name (FreeRV n _) = n"
| "rv_name (Deterministic n _) = n"
| "rv_name (ObservedRV n _ _) = n"

fun unobserved :: "rv \<Rightarrow> bool" where
  "unobserved (ObservedRV _ _ _) = False"
| "unobserved _ = True"

text \<open>
  The posterior group of the trace that \<open>pm.sample\<close> returns has one entry for every
  free and every deterministic variable of the model; the draws themselves, indexed by
  chain and draw, come from the sampler.
\<close>

definition unobserved_names :: "pm_model \<Rightarrow> string list" where
  "unobserved_names m = map rv_name (filter unobserved m)"

record trace =
  var_names :: "string list"
  posterior :: "(string \<Rightarrow> real list) list list"

text \<open>The parameter vector of one draw: the value of every variable of the trace.\<close>

definition sample_vector :: "trace \<Rightarrow> nat \<Rightarrow> nat \<Rightarrow> (string \<times> real list) list" where
  "sample_vector tr c d = map (\<lambda>n. (n, (posterior tr ! c ! d) n)) (var_names tr)"

datatype plot_call =
    Figure
  | Errorbar "real list" "real list" "real list"
  | Plot "real list" "real option list"
  | Fill_between "real list" "real list" "real list"
  | Xlabel string
  | Ylabel string
  | Legend
  | Show

text \<open>
  The calls the notebook makes into the outside world, in order. \<open>Write_file\<close> is what
  a call that writes a file (\<open>to_csv\<close>, \<open>savetxt\<close>, \<open>savefig\<close>) would record.
\<close>

datatype call =
    Read_csv string
  | Pm_sample
  | Pm_sample_posterior_predictive
  | Plt plot_call
  | Write_file string

datatype pyval =
    PyModule string
  | DataFrame dataframe
  | Array "real list"
  | Float "real option"
  | NanArray "real option list"
  | TensorVariable texpr
  | OrbitObj orbit
  | PmModel pm_model
  | InferenceData trace
  | PosteriorPredictive "(string \<times> ndarray3) list"
  | DataArray ndarray3

record state =
  globals :: "string \<rightharpoonup> pyval"
  calls :: "call list"

text \<open>
  The external operations, which the notebook takes as they are: each either returns
  or raises.
\<close>

record library =
  pd_read_csv :: "string \<Rightarrow> error + dataframe"
  pm_sample :: "pm_model \<Rightarrow> nat \<Rightarrow> nat \<Rightarrow> real \<Rightarrow> error + (string \<Rightarrow> real list) list list"
  pm_sample_posterior_predictive ::
    "pm_model \<Rightarrow> trace \<Rightarrow> string list \<Rightarrow> nat \<Rightarrow> error + (string \<times> ndarray3) list"
  plt :: "plot_call \<Rightarrow> error + unit"

subsection \<open>Statements\<close>

text \<open>
  A statement runs on the state and either completes or raises; the state it leaves
  holds whatever was assigned and called before the exception. The notebook has no
  \<open>try\<close>: a sequence of statements stops at the first exception.
\<close>

type_synonym stmt = "state \<Rightarrow> error option \<times> state"

definition ok :: stmt where
  "ok st = (None, st)"

definition raise :: "error \<Rightarrow> stmt" where
  "raise e st = (Some e, st)"

definition then_do :: "stmt \<Rightarrow> stmt \<Rightarrow> stmt" where
  "then_do s1 s2 st = (case s1 st of (Some e, st') \<Rightarrow> (Some e, st') | (None, st') \<Rightarrow> s2 st')"

fun run :: "stmt list \<Rightarrow> stmt" where
  "run [] = ok"
| "run (s # ss) = then_do s (run ss)"

definition assign :: "string \<Rightarrow> pyval \<Rightarrow> stmt" where
  "assign x v st = (None, st\<lparr>globals := (globals st)(x \<mapsto> v)\<rparr>)"

definition attempt :: "error + 'a \<Rightarrow> ('a \<Rightarrow> stmt) \<Rightarrow> stmt" where
  "attempt r k = (case r of Inl e \<Rightarrow> raise e | Inr x \<Rightarrow> k x)"

definition lib_call :: "call \<Rightarrow> error + 'a \<Rightarrow> ('a \<Rightarrow> stmt) \<Rightarrow> stmt" where
  "lib_call c r k st = attempt r k (st\<lparr>calls := calls st @ [c]\<rparr>)"

definition load :: "string \<Rightarrow> (pyval \<Rightarrow> stmt) \<Rightarrow> stmt" where
  "load x k st = (case globals st x of None \<Rightarrow> raise (NameError x) st | Some v \<Rightarrow> k v st)"

definition load_frame :: "string \<Rightarrow> (dataframe \<Rightarrow> stmt) \<Rightarrow> stmt" where
  "load_frame x k = load x (\<lambda>v. case v of DataFrame d \<Rightarrow> k d | _ \<Rightarrow> raise TypeError)"

definition load_array :: "string \<Rightarrow> (real list \<Rightarrow> stmt) \<Rightarrow> stmt" where
  "load_array x k = load x (\<lambda>v. case v of Array a \<Rightarrow> k a | _ \<Rightarrow> raise TypeError)"

definition load_float :: "string \<Rightarrow> (real option \<Rightarrow> stmt) \<Rightarrow> stmt" where
  "load_float x k = load x (\<lambda>v. case v of Float f \<Rightarrow> k f | _ \<Rightarrow> raise TypeError)"

definition load_nan_array :: "string \<Rightarrow> (real option list \<Rightarrow> stmt) \<Rightarrow> stmt" where
  "load_nan_array x k = load x (\<lambda>v. case v of NanArray a \<Rightarrow> k a | _ \<Rightarrow> raise TypeError)"

definition load_tensor :: "string \<Rightarrow> (texpr \<Rightarrow> stmt) \<Rightarrow> stmt" where
  "load_tensor x k = load x (\<lambda>v. case v of TensorVariable e \<Rightarrow> k e | _ \<Rightarrow> raise TypeError)"

definition load_orbit :: "string \<Rightarrow> (orbit \<Rightarrow> stmt) \<Rightarrow> stmt" where
  "load_orbit x k = load x (\<lambda>v. case v of OrbitObj e \<Rightarrow> k e | _ \<Rightarrow> raise TypeError)"

definition load_model :: "string \<Rightarrow> (pm_model \<Rightarrow> stmt) \<Rightarrow> stmt" where
  "load_model x k = load x (\<lambda>v. case v of PmModel m \<Rightarrow> k m | _ \<Rightarrow> raise TypeError)"

definition load_trace :: "string \<Rightarrow> (trace \<Rightarrow> stmt) \<Rightarrow> stmt" where
  "load_trace x k = load x (\<lambda>v. case v of InferenceData t \<Rightarrow> k t | _ \<Rightarrow> raise TypeError)"

definition load_ppc :: "string \<Rightarrow> ((string \<times> ndarray3) list \<Rightarrow> stmt) \<Rightarrow> stmt" where
  "load_ppc x k = load x (\<lambda>v. case v of PosteriorPredictive g \<Rightarrow> k g | _ \<Rightarrow> raise TypeError)"

definition load_data_array :: "string \<Rightarrow> (ndarray3 \<Rightarrow> stmt) \<Rightarrow> stmt" where
  "load_data_array x k = load x (\<lambda>v. case v of DataArray a \<Rightarrow> k a | _ \<Rightarrow> raise TypeError)"

subsection \<open>Cell d022fdfe: imports\<close>

definition cell_d022fdfe :: "stmt list" where
  "cell_d022fdfe =
     [assign ''pd'' (PyModule ''pandas''),
      assign ''np'' (PyModule ''numpy''),
      assign ''plt'' (PyModule ''matplotlib.pyplot''),
      assign ''pm'' (PyModule ''pymc''),
      assign ''pt'' (PyModule ''pytensor.tensor''),
      assign ''xo'' (PyModule ''exoplanet''),
      assign ''Time'' (PyModule ''astropy.time.Time'')]"

subsection \<open>Cell 44fd8196: read HJD, MAG, MERR from the CSV\<close>

definition stmt_values :: "string \<Rightarrow> string \<Rightarrow> stmt" where
  "stmt_values x c = load_frame ''df'' (\<lambda>d. attempt (df_values d c) (\<lambda>a. assign x (Array a)))"

definition cell_44fd8196 :: "library \<Rightarrow> stmt list" where
  "cell_44fd8196 lib =
     [lib_call (Read_csv ''data/lc_obs.csv'') (pd_read_csv lib ''data/lc_obs.csv'')
        (\<lambda>d. assign ''df'' (DataFrame d)),
      stmt_values ''time'' ''HJD'',
      stmt_values ''mag'' ''MAG'',
      stmt_values ''merr'' ''MERR'']"

subsection \<open>Cell 5d7182a5 as statements\<close>

text \<open>
  The four time lines: only \<open>time[0]\<close>, the first, can raise, and then nothing has
  been assigned.
\<close>

definition stmt_time_norm :: stmt where
  "stmt_time_norm =
     load_array ''time'' (\<lambda>a. attempt (preprocess_time a) (\<lambda>p.
       run [assign ''t0'' (Float (Some (t0 p))),
            assign ''t_rel'' (Array (t_rel p)),
            assign ''t_ref'' (Float (t_ref p)),
            assign ''t_norm'' (Array (t_norm p))]))"

text \<open>
  The three flux lines: only the product with \<open>merr\<close>, in the last, can raise, and
  then \<open>mag0\<close> and \<open>flux_rel\<close> have been assigned.
\<close>

definition stmt_flux :: stmt where
  "stmt_flux =
     load_array ''mag'' (\<lambda>m.
       run [assign ''mag0'' (Float (np_median m)),
            assign ''flux_rel'' (Array (flux_rel_of m (np_median m))),
            load_array ''merr'' (\<lambda>e.
              attempt (flux_err_of (flux_rel_of m (np_median m)) e) (\<lambda>fe.
                assign ''flux_err'' (Array fe)))])"

definition cell_5d7182a5 :: "stmt list" where
  "cell_5d7182a5 = [stmt_time_norm, stmt_flux]"

subsection \<open>Cell 1b0b5589: build and sample the model, summarise, plot\<close>

text \<open>
  \<open>pm.X('name', ...)\<close> inside the \<open>with\<close> block adds the variable to the model that the
  block opened, which the name \<open>model\<close> refers to.
\<close>

definition register :: "rv \<Rightarrow> stmt" where
  "register v = load_model ''model'' (\<lambda>m. assign ''model'' (PmModel (m @ [v])))"

definition def_rv :: "string \<Rightarrow> rv \<Rightarrow> stmt" where
  "def_rv x v = then_do (register v) (assign x (TensorVariable (RV (rv_name v))))"

definition model_block :: "stmt list" where
  "model_block =
     [assign ''model'' (PmModel []),
      def_rv ''logP''
        (FreeRV ''logP'' (Normal (Const (Some (ln 3.21305751))) (Const (Some 0.005)))),
      load_tensor ''logP'' (\<lambda>lp. def_rv ''period'' (Deterministic ''period'' (Exp lp))),
      def_rv ''phase'' (FreeRV ''phase'' (Uniform (Const (Some (- 0.5))) (Const (Some 0.5)))),
      load_float ''t_ref'' (\<lambda>tr. load_tensor ''phase'' (\<lambda>ph. load_tensor ''period'' (\<lambda>pe.
        def_rv ''tm'' (Deterministic ''tm'' (Add (Const tr) (Mul ph pe)))))),
      def_rv ''r'' (FreeRV ''r'' (LogNormal (Const (Some (ln 0.1))) (Const (Some 0.5)))),
      load_tensor ''r'' (\<lambda>ror. def_rv ''b'' (FreeRV ''b'' (ImpactParameter ror))),
      def_rv ''log_rho_star''
        (FreeRV ''log_rho_star'' (Normal (Const (Some (ln 1.4))) (Const (Some 0.5)))),
      load_tensor ''log_rho_star'' (\<lambda>l.
        def_rv ''rho_star'' (Deterministic ''rho_star'' (Exp l))),
      def_rv ''log_rstar''
        (FreeRV ''log_rstar'' (Normal (Const (Some (ln 0.7))) (Const (Some 0.5)))),
      load_tensor ''log_rstar'' (\<lambda>l. def_rv ''r_star'' (Deterministic ''r_star'' (Exp l))),
      load_tensor ''period'' (\<lambda>pe. load_tensor ''tm'' (\<lambda>tm. load_tensor ''b'' (\<lambda>ib.
        load_tensor ''rho_star'' (\<lambda>rho. load_tensor ''r_star'' (\<lambda>rs.
          assign ''orbit'' (OrbitObj (KeplerianOrbit pe tm ib rho rs))))))),
      def_rv ''u'' (FreeRV ''u'' (QuadLimbDark [0.3, 0.2])),
      def_rv ''mean'' (FreeRV ''mean'' (Normal (Const (Some 0.0)) (Const (Some 0.1)))),
      load_tensor ''u'' (\<lambda>lu. load_orbit ''orbit'' (\<lambda>ob. load_tensor ''r'' (\<lambda>ror.
        load_array ''t_norm'' (\<lambda>tn. load_tensor ''mean'' (\<lambda>mn.
          assign ''raw_lc'' (TensorVariable
            (Add (Sum_last (Light_curve (Subtensor lu 0) (Subtensor lu 1) ob ror tn (texp tn)))
                 mn))))))),
      load_tensor ''raw_lc'' (\<lambda>lc. load_array ''flux_err'' (\<lambda>fe. load_array ''flux_rel'' (\<lambda>fr.
        register (ObservedRV ''obs'' (Normal lc (ConstArray fe)) fr))))]"

definition stmt_sample :: "library \<Rightarrow> stmt" where
  "stmt_sample lib =
     load_model ''model'' (\<lambda>m.
       lib_call Pm_sample (pm_sample lib m 2000 1000 0.9) (\<lambda>d.
         assign ''trace'' (InferenceData \<lparr>var_names = unobserved_names m, posterior = d\<rparr>)))"

definition stmt_ppc :: "library \<Rightarrow> stmt" where
  "stmt_ppc lib =
     load_model ''model'' (\<lambda>m. load_trace ''trace'' (\<lambda>t.
       lib_call Pm_sample_posterior_predictive
         (pm_sample_posterior_predictive lib m t [''raw_lc''] 42)
         (\<lambda>g. assign ''ppc'' (PosteriorPredictive g))))"

definition stmt_lc_samps :: stmt where
  "stmt_lc_samps =
     load_ppc ''ppc'' (\<lambda>g.
       case map_of g ''raw_lc'' of
         None \<Rightarrow> raise (KeyError ''raw_lc'')
       | Some a \<Rightarrow> assign ''lc_samps'' (DataArray a))"

definition stmt_lc_median :: stmt where
  "stmt_lc_median =
     load_data_array ''lc_samps'' (\<lambda>a.
       attempt (median_axes01 a) (\<lambda>md. assign ''lc_median'' (NanArray md)))"

definition stmt_lc_lo_hi :: stmt where
  "stmt_lc_lo_hi =
     load_data_array ''lc_samps'' (\<lambda>a.
       attempt (percentile_axes01 a 16) (\<lambda>lo. attempt (percentile_axes01 a 84) (\<lambda>hi.
         then_do (assign ''lc_lo'' (Array lo)) (assign ''lc_hi'' (Array hi)))))"

definition summary_block :: "stmt list" where
  "summary_block = [stmt_lc_samps, stmt_lc_median, stmt_lc_lo_hi]"

definition plot_stmt :: "library \<Rightarrow> plot_call \<Rightarrow> stmt" where
  "plot_stmt lib c = lib_call (Plt c) (plt lib c) (\<lambda>_. ok)"

definition plot_block :: "library \<Rightarrow> stmt list" where
  "plot_block lib =
     [plot_stmt lib Figure,
      load_array ''time'' (\<lambda>t. load_array ''flux_rel'' (\<lambda>fr. load_array ''flux_err'' (\<lambda>fe.
        plot_stmt lib (Errorbar t (map (\<lambda>f. f + 1) fr) fe)))),
      load_array ''time'' (\<lambda>t. load_nan_array ''lc_median'' (\<lambda>md.
        plot_stmt lib (Plot t (map (map_option (\<lambda>f. f + 1)) md)))),
      load_array ''time'' (\<lambda>t. load_array ''lc_lo'' (\<lambda>lo. load_array ''lc_hi'' (\<lambda>hi.
        plot_stmt lib (Fill_between t (map (\<lambda>f. f + 1) lo) (map (\<lambda>f. f + 1) hi))))),
      plot_stmt lib (Xlabel ''Heliocentric JD''),
      plot_stmt lib (Ylabel ''Relative Flux''),
      plot_stmt lib Legend,
      plot_stmt lib Show]"

definition cell_1b0b5589 :: "library \<Rightarrow> stmt list" where
  "cell_1b0b5589 lib =
     model_block @ [stmt_sample lib, stmt_ppc lib] @ summary_block @ plot_block lib"

subsection \<open>The notebook\<close>

definition init_state :: state where
  "init_state = \<lparr>globals = Map.empty, calls = []\<rparr>"

definition notebook :: "library \<Rightarrow> error option \<times> state" where
  "notebook lib =
     run (cell_d022fdfe @ cell_44fd8196 lib @ cell_5d7182a5 @ cell_1b0b5589 lib) init_state"

definition files_written :: "state \<Rightarrow> string list" where
  "files_written st = concat (map (\<lambda>c. case c of Write_file f \<Rightarrow> [f] | _ \<Rightarrow> []) (calls st))"

subsection \<open>Auxiliary notions for the proofs\<close>

text \<open>
  The model that the lines of the \<open>with\<close> block build, written out: \<open>tr\<close>, \<open>tn\<close>,
  \<open>fr\<close> and \<open>fe\<close> are the values of \<open>t_ref\<close>, \<open>t_norm\<close>, \<open>flux_rel\<close> and \<open>flux_err\<close>.
\<close>

definition transit_model ::
  "real option \<Rightarrow> real list \<Rightarrow> real list \<Rightarrow> real list \<Rightarrow> pm_model" where
  "transit_model tr tn fr fe =
     [FreeRV ''logP'' (Normal (Const (Some (ln 3.21305751))) (Const (Some 0.005))),
      Deterministic ''period'' (Exp (RV ''logP'')),
      FreeRV ''phase'' (Uniform (Const (Some (- 0.5))) (Const (Some 0.5))),
      Deterministic ''tm'' (Add (Const tr) (Mul (RV ''phase'') (RV ''period''))),
      FreeRV ''r'' (LogNormal (Const (Some (ln 0.1))) (Const (Some 0.5))),
      FreeRV ''b'' (ImpactParameter (RV ''r'')),
      FreeRV ''log_rho_star'' (Normal (Const (Some (ln 1.4))) (Const (Some 0.5))),
      Deterministic ''rho_star'' (Exp (RV ''log_rho_star'')),
      FreeRV ''log_rstar'' (Normal (Const (Some (ln 0.7))) (Const (Some 0.5))),
      Deterministic ''r_star'' (Exp (RV ''log_rstar'')),
      FreeRV ''u'' (QuadLimbDark [0.3, 0.2]),
      FreeRV ''mean'' (Normal (Const (Some 0.0)) (Const (Some 0.1))),
      ObservedRV ''obs''
        (Normal
          (Add (Sum_last
                 (Light_curve (Subtensor (RV ''u'') 0) (Subtensor (RV ''u'') 1)
                    (KeplerianOrbit (RV ''period'') (RV ''tm'') (RV ''b'')
                       (RV ''rho_star'') (RV ''r_star''))
                    (RV ''r'') tn (texp tn)))
               (RV ''mean''))
          (ConstArray fe))
        fr]"

text \<open>The notebook's statements before and after the \<open>pm.sample\<close> line.\<close>

definition before_sampling :: "library \<Rightarrow> stmt list" where
  "before_sampling lib = cell_d022fdfe @ cell_44fd8196 lib @ cell_5d7182a5 @ model_block"

definition after_sampling :: "library \<Rightarrow> stmt list" where
  "after_sampling lib = [stmt_ppc lib] @ summary_block @ plot_block lib"

text \<open>A statement leaves a reading \<open>f\<close> of the state as it was.\<close>

definition invariant :: "(state \<Rightarrow> 'a) \<Rightarrow> stmt \<Rightarrow> bool" where
  "invariant f s = (\<forall>st. f (snd (s st)) = f st)"

section \<open>Properties\<close>

subsection \<open>The time cell\<close>

lemma sum_list_map_sub_const:
  "sum_list (map (\<lambda>t. t - c) xs) = sum_list xs - real (length xs) * (c::real)"
  by (induction xs) (simp_all add: algebra_simps)

text \<open>On a non-empty array the time cell returns, with every value in closed form.\<close>

lemma preprocess_time_nonempty:
  assumes "time \<noteq> []"
  shows "preprocess_time time =
     Inr \<lparr>t0 = hd time,
          t_rel = map (\<lambda>t. t - hd time) time,
          t_ref = Some (sum_list time / real (length time) - hd time),
          t_norm = map (\<lambda>t. t - sum_list time / real (length time)) time\<rparr>"
proof -
  obtain x xs where tm: "time = x # xs" using assms by (cases time) auto
  have n0: "real (length time) \<noteq> 0" using assms by simp
  have m: "sum_list (map (\<lambda>t. t - x) time) / real (length time)
        = sum_list time / real (length time) - x"
    using n0 by (simp add: sum_list_map_sub_const diff_divide_distrib)
  show ?thesis
    unfolding preprocess_time_def index0_def bind_err_def np_mean_def Let_def
    using m tm by (simp add: o_def)
qed

lemma preprocess_time_empty: "preprocess_time [] = Inl IndexError"
  by (simp add: preprocess_time_def index0_def bind_err_def)

subsection \<open>The flux cell\<close>

lemma np_median_Some: "a \<noteq> [] \<Longrightarrow> \<exists>m. np_median a = Some m"
  by (simp add: np_median_def Let_def)

lemma np_mul_same_length:
  "length a = length b \<Longrightarrow> np_mul a b = Inr (map2 (*) a b)"
  by (simp add: np_mul_def)

lemma preprocess_flux_same_length:
  assumes "length mag = length merr" and "np_median mag = Some m"
  shows "preprocess_flux mag merr =
     Inr \<lparr>mag0 = Some m,
          flux_rel = map (\<lambda>x. 10 powr (- 0.4 * (x - m)) - 1) mag,
          flux_err = map2 (\<lambda>x e. 0.4 * ln 10 * (10 powr (- 0.4 * (x - m))) * e) mag merr\<rparr>"
proof -
  have "map2 (*) (map (\<lambda>f. 0.4 * ln 10 * (f + 1))
                    (map (\<lambda>x. 10 powr (- 0.4 * (x - m)) - 1) mag)) merr
      = map2 (\<lambda>x e. 0.4 * ln 10 * (10 powr (- 0.4 * (x - m))) * e) mag merr"
    by (simp add: zip_map1 o_def split_def)
  then show ?thesis
    using assms
    by (simp add: preprocess_flux_def flux_rel_of_def flux_err_of_def Let_def
        np_mul_same_length bind_err_def)
qed

subsection \<open>How many rows the notebook needs\<close>

lemma np_diff_shift: "np_diff (map (\<lambda>t. t - c) xs) = np_diff xs"
  by (simp add: np_diff_def map_tl [symmetric] zip_map_map o_def split_def)

lemma length_np_diff: "length (np_diff xs) = length xs - 1"
  by (simp add: np_diff_def)

text \<open>
  Claim C9. With at least two rows \<open>time[0]\<close> succeeds, the differences of the
  normalised time (those of the input) are non-empty and their median, the exposure
  time, is a number. With exactly one row the differences are empty and the median is
  nan; with no row \<open>time[0]\<close> raises IndexError.
\<close>

theorem two_rows_needed:
  "(2 \<le> length time \<longrightarrow>
      (\<exists>x p e. index0 time = Inr x \<and> preprocess_time time = Inr p
         \<and> np_diff (t_norm p) = np_diff time \<and> np_diff time \<noteq> []
         \<and> texp (t_norm p) = Some e))
 \<and> (length time = 1 \<longrightarrow>
      (\<exists>p. preprocess_time time = Inr p \<and> np_diff (t_norm p) = []
         \<and> texp (t_norm p) = None))
 \<and> (length time = 0 \<longrightarrow>
      index0 time = Inl IndexError \<and> preprocess_time time = Inl IndexError)"
proof (intro conjI impI)
  assume n: "2 \<le> length time"
  then have ne: "time \<noteq> []" by auto
  have "0 < length (np_diff time)" using n by (simp add: length_np_diff)
  then have d: "np_diff time \<noteq> []" by blast
  obtain e where e: "np_median (np_diff time) = Some e"
    using np_median_Some [OF d] by blast
  obtain x where x: "index0 time = Inr x"
    using ne by (cases time) (auto simp: index0_def)
  show "\<exists>x p e. index0 time = Inr x \<and> preprocess_time time = Inr p
         \<and> np_diff (t_norm p) = np_diff time \<and> np_diff time \<noteq> []
         \<and> texp (t_norm p) = Some e"
    using x d e preprocess_time_nonempty [OF ne] by (simp add: np_diff_shift texp_def)
next
  assume n: "length time = 1"
  then have ne: "time \<noteq> []" by auto
  have d: "np_diff time = []" using n length_np_diff [of time] by simp
  show "\<exists>p. preprocess_time time = Inr p \<and> np_diff (t_norm p) = []
          \<and> texp (t_norm p) = None"
    using d preprocess_time_nonempty [OF ne]
    by (simp add: np_diff_shift texp_def np_median_def)
next
  assume "length time = 0"
  then show "index0 time = Inl IndexError" by (simp add: index0_def)
next
  assume "length time = 0"
  then show "preprocess_time time = Inl IndexError" by (simp add: preprocess_time_empty)
qed

theorem two_rows_needed_witness:
  "(\<exists>x p e. index0 [10, 10.5, 12] = Inr x \<and> preprocess_time [10, 10.5, 12] = Inr p
       \<and> np_diff (t_norm p) = np_diff [10, 10.5, 12] \<and> np_diff [10, 10.5, 12] \<noteq> []
       \<and> texp (t_norm p) = Some e)
 \<and> (\<exists>p. preprocess_time [10] = Inr p \<and> np_diff (t_norm p) = [] \<and> texp (t_norm p) = None)
 \<and> index0 [] = Inl IndexError \<and> preprocess_time [] = Inl IndexError"
  using two_rows_needed [of "[10, 10.5, 12]"] two_rows_needed [of "[10]"]
    two_rows_needed [of "[]"]
  by simp

subsection \<open>The summary: median and percentiles\<close>

lemma lerp100_eq:
  "lerp100 s N = s ! (N div 100)
       + (s ! (min (N div 100 + 1) (length s - 1)) - s ! (N div 100)) * (real (N mod 100) / 100)"
  by (simp add: lerp100_def Let_def)

lemma np_percentile_lerp:
  "a \<noteq> [] \<Longrightarrow> np_percentile a q = Inr (lerp100 (sort a) ((length a - 1) * q))"
  by (simp add: np_percentile_def)

lemma lerp100_bounds:
  assumes "sorted s" and "N div 100 < length s"
  shows "s ! (N div 100) \<le> lerp100 s N"
    and "lerp100 s N \<le> s ! (min (N div 100 + 1) (length s - 1))"
proof -
  let ?k = "N div 100"
  let ?k' = "min (?k + 1) (length s - 1)"
  let ?g = "real (N mod 100) / 100"
  have k': "?k \<le> ?k'" "?k' < length s" using assms(2) by auto
  have le: "s ! ?k \<le> s ! ?k'" using assms(1) k' by (simp add: sorted_nth_mono)
  have g: "0 \<le> ?g" "?g \<le> 1" by simp_all
  have "0 \<le> (s ! ?k' - s ! ?k) * ?g" using le g(1) by simp
  then show "s ! ?k \<le> lerp100 s N" by (simp add: lerp100_eq)
  have "(s ! ?k' - s ! ?k) * ?g \<le> (s ! ?k' - s ! ?k) * 1"
    using le g(2) by (intro mult_left_mono) simp_all
  then show "lerp100 s N \<le> s ! ?k'" by (simp add: lerp100_eq)
qed

lemma lerp100_mono:
  assumes "sorted s" and "N1 \<le> N2" and "N2 div 100 < length s"
  shows "lerp100 s N1 \<le> lerp100 s N2"
proof (cases "N1 div 100 = N2 div 100")
  case True
  let ?k = "N2 div 100"
  let ?k' = "min (?k + 1) (length s - 1)"
  have k': "?k \<le> ?k'" "?k' < length s" using assms(3) by auto
  have le: "s ! ?k \<le> s ! ?k'" using assms(1) k' by (simp add: sorted_nth_mono)
  have "N1 mod 100 \<le> N2 mod 100"
    using True assms(2) by (metis div_mult_mod_eq nat_add_left_cancel_le)
  then have "real (N1 mod 100) / 100 \<le> real (N2 mod 100) / 100" by simp
  then have "(s ! ?k' - s ! ?k) * (real (N1 mod 100) / 100)
           \<le> (s ! ?k' - s ! ?k) * (real (N2 mod 100) / 100)"
    using le by (intro mult_left_mono) simp_all
  then show ?thesis using True by (simp add: lerp100_eq)
next
  case False
  have "N1 div 100 \<le> N2 div 100" using assms(2) by (rule div_le_mono)
  then have lt: "N1 div 100 < N2 div 100" using False by simp
  then have k1: "N1 div 100 < length s" using assms(3) by simp
  have "lerp100 s N1 \<le> s ! (min (N1 div 100 + 1) (length s - 1))"
    by (rule lerp100_bounds(2) [OF assms(1) k1])
  also have "\<dots> \<le> s ! (N2 div 100)"
    using assms(1) lt assms(3) by (intro sorted_nth_mono) auto
  also have "\<dots> \<le> lerp100 s N2" by (rule lerp100_bounds(1) [OF assms(1) assms(3)])
  finally show ?thesis .
qed

lemma lerp100_whole: "lerp100 s (k * 100) = s ! k"
  by (simp add: lerp100_eq)

lemma lerp100_half:
  "lerp100 s (k * 100 + 50) = (s ! k + s ! (min (k + 1) (length s - 1))) / 2"
proof -
  have d: "(k * 100 + 50) div 100 = k" by simp
  have m: "(k * 100 + 50) mod 100 = 50" by simp
  show ?thesis unfolding lerp100_eq d m by (simp add: field_simps)
qed

lemma np_median_lerp:
  assumes "a \<noteq> []"
  shows "np_median a = Some (lerp100 (sort a) ((length a - 1) * 50))"
proof -
  let ?n = "length a"
  have n: "0 < ?n" using assms by simp
  show ?thesis
  proof (cases "odd ?n")
    case True
    then obtain k where k: "?n = 2 * k + 1" by (auto elim: oddE)
    have N: "(?n - 1) * 50 = k * 100" using k by simp
    have "np_median a = Some (sort a ! k)"
      using assms True k by (simp add: np_median_def Let_def)
    then show ?thesis unfolding N lerp100_whole .
  next
    case False
    then obtain k where k: "?n = 2 * k" by (auto elim: evenE)
    then have k0: "0 < k" using n by simp
    have N: "(?n - 1) * 50 = (k - 1) * 100 + 50" using k k0 by (cases k) simp_all
    have mn: "min (k - 1 + 1) (length (sort a) - 1) = k" using k0 k by simp
    have "np_median a = Some ((sort a ! (k - 1) + sort a ! k) / 2)"
      using assms False k by (simp add: np_median_def Let_def)
    then show ?thesis unfolding N lerp100_half mn .
  qed
qed

lemma virtual_index_in_range:
  assumes "a \<noteq> []" and "q \<le> 100"
  shows "((length a - 1) * q) div 100 < length (sort a)"
proof -
  have "(length a - 1) * q \<le> (length a - 1) * 100" using assms(2) by simp
  then have "((length a - 1) * q) div 100 \<le> ((length a - 1) * 100) div 100"
    by (rule div_le_mono)
  then show ?thesis using assms(1) by (cases a) simp_all
qed

lemma percentile_median_order:
  assumes "a \<noteq> []"
  shows "\<exists>lo m hi. np_percentile a 16 = Inr lo \<and> np_median a = Some m
          \<and> np_percentile a 84 = Inr hi \<and> lo \<le> m \<and> m \<le> hi"
proof -
  let ?s = "sort a" and ?n = "length a"
  have s: "sorted ?s" by simp
  have b: "((?n - 1) * 84) div 100 < length ?s"
    by (rule virtual_index_in_range [OF assms]) simp
  have b50: "((?n - 1) * 50) div 100 < length ?s"
    by (rule virtual_index_in_range [OF assms]) simp
  have 1: "lerp100 ?s ((?n - 1) * 16) \<le> lerp100 ?s ((?n - 1) * 50)"
    by (rule lerp100_mono [OF s _ b50]) simp
  have 2: "lerp100 ?s ((?n - 1) * 50) \<le> lerp100 ?s ((?n - 1) * 84)"
    by (rule lerp100_mono [OF s _ b]) simp
  show ?thesis using 1 2 by (simp add: np_percentile_lerp [OF assms] np_median_lerp [OF assms])
qed

text \<open>Counting the values on each side of a bound in the sorted array.\<close>

lemma filter_le_count:
  assumes "sorted s" and "k < length s" and "s ! k \<le> (m::real)"
  shows "k + 1 \<le> length (filter (\<lambda>x. x \<le> m) s)"
proof -
  have all: "\<forall>x \<in> set (take (k + 1) s). x \<le> m"
  proof
    fix x assume "x \<in> set (take (k + 1) s)"
    then obtain i where i: "i < k + 1" "i < length s" "x = s ! i"
      by (auto simp: in_set_conv_nth)
    have "s ! i \<le> s ! k" using assms(1,2) i by (intro sorted_nth_mono) auto
    then show "x \<le> m" using assms(3) i by simp
  qed
  have "filter (\<lambda>x. x \<le> m) s
      = filter (\<lambda>x. x \<le> m) (take (k + 1) s) @ filter (\<lambda>x. x \<le> m) (drop (k + 1) s)"
    by (metis append_take_drop_id filter_append)
  also have "filter (\<lambda>x. x \<le> m) (take (k + 1) s) = take (k + 1) s"
    using all by (simp add: filter_id_conv)
  finally have "length (filter (\<lambda>x. x \<le> m) s) \<ge> length (take (k + 1) s)" by simp
  then show ?thesis using assms(2) by simp
qed

lemma filter_ge_count:
  assumes "sorted s" and "k < length s" and "(m::real) \<le> s ! k"
  shows "length s - k \<le> length (filter (\<lambda>x. m \<le> x) s)"
proof -
  have all: "\<forall>x \<in> set (drop k s). m \<le> x"
  proof
    fix x assume "x \<in> set (drop k s)"
    then obtain i where i: "i < length s - k" "x = s ! (k + i)"
      by (auto simp: in_set_conv_nth)
    have "s ! k \<le> s ! (k + i)" using assms(1,2) i by (intro sorted_nth_mono) auto
    then show "m \<le> x" using assms(3) i by simp
  qed
  have "filter (\<lambda>x. m \<le> x) s
      = filter (\<lambda>x. m \<le> x) (take k s) @ filter (\<lambda>x. m \<le> x) (drop k s)"
    by (metis append_take_drop_id filter_append)
  also have "filter (\<lambda>x. m \<le> x) (drop k s) = drop k s"
    using all by (simp add: filter_id_conv)
  finally have "length (filter (\<lambda>x. m \<le> x) s) \<ge> length (drop k s)" by simp
  then show ?thesis by simp
qed

lemma length_filter_sort:
  "length (filter P (sort a)) = length (filter P (a :: real list))"
proof -
  have "mset (filter P (sort a)) = mset (filter P a)" by simp
  then show ?thesis by (rule mset_eq_length)
qed

lemma np_median_halves:
  assumes "np_median a = Some m"
  shows "length a \<le> 2 * length (filter (\<lambda>x. x \<le> m) a)"
    and "length a \<le> 2 * length (filter (\<lambda>x. m \<le> x) a)"
proof -
  let ?s = "sort a" and ?n = "length a"
  have ne: "a \<noteq> []" using assms by (auto simp: np_median_def)
  have n: "0 < ?n" using ne by simp
  have s: "sorted ?s" by simp
  have "length a \<le> 2 * length (filter (\<lambda>x. x \<le> m) ?s)
      \<and> length a \<le> 2 * length (filter (\<lambda>x. m \<le> x) ?s)"
  proof (cases "odd ?n")
    case True
    then obtain k where k: "?n = 2 * k + 1" by (auto elim: oddE)
    have m: "m = ?s ! k" using assms ne True k by (simp add: np_median_def Let_def)
    have kl: "k < length ?s" using k by simp
    have 1: "k + 1 \<le> length (filter (\<lambda>x. x \<le> m) ?s)"
      by (rule filter_le_count [OF s kl]) (simp add: m)
    have 2: "length ?s - k \<le> length (filter (\<lambda>x. m \<le> x) ?s)"
      by (rule filter_ge_count [OF s kl]) (simp add: m)
    show ?thesis using 1 2 k by simp
  next
    case False
    then obtain k where k: "?n = 2 * k" by (auto elim: evenE)
    then have k0: "0 < k" using n by simp
    have m: "m = (?s ! (k - 1) + ?s ! k) / 2"
      using assms ne False k by (simp add: np_median_def Let_def)
    have kl: "k < length ?s" "k - 1 < length ?s" using k k0 by simp_all
    have le: "?s ! (k - 1) \<le> ?s ! k" using s kl by (intro sorted_nth_mono) auto
    have 1: "(k - 1) + 1 \<le> length (filter (\<lambda>x. x \<le> m) ?s)"
      by (rule filter_le_count [OF s kl(2)]) (use le m in simp)
    have 2: "length ?s - k \<le> length (filter (\<lambda>x. m \<le> x) ?s)"
      by (rule filter_ge_count [OF s kl(1)]) (use le m in simp)
    show ?thesis using 1 2 k k0 by simp
  qed
  then show "length a \<le> 2 * length (filter (\<lambda>x. x \<le> m) a)"
    and "length a \<le> 2 * length (filter (\<lambda>x. m \<le> x) a)"
    by (simp_all add: length_filter_sort)
qed

text \<open>
  What makes a value the \<open>q\<close>-th percentile: it lies between the two neighbours of the
  virtual index \<open>(n - 1) * q / 100\<close> in the sorted array, at the fraction of the index,
  so at least \<open>k + 1\<close> values are at or below it and all from index \<open>k + 1\<close> on are at or
  above it, where \<open>k\<close> is the integer part of the index.
\<close>

lemma percentile_bracket:
  assumes "a \<noteq> []" and "q \<le> 100" and "np_percentile a q = Inr v"
  shows "sort a ! (((length a - 1) * q) div 100) \<le> v"
    and "v \<le> sort a ! (min (((length a - 1) * q) div 100 + 1) (length a - 1))"
    and "v = sort a ! (((length a - 1) * q) div 100)
           + (sort a ! (min (((length a - 1) * q) div 100 + 1) (length a - 1))
              - sort a ! (((length a - 1) * q) div 100))
             * (real (((length a - 1) * q) mod 100) / 100)"
    and "((length a - 1) * q) div 100 + 1 \<le> length (filter (\<lambda>x. x \<le> v) a)"
    and "length a - min (((length a - 1) * q) div 100 + 1) (length a - 1)
           \<le> length (filter (\<lambda>x. v \<le> x) a)"
proof -
  let ?s = "sort a" and ?N = "(length a - 1) * q"
  let ?k = "?N div 100"
  let ?k' = "min (?k + 1) (length a - 1)"
  have s: "sorted ?s" by simp
  have k: "?k < length ?s" by (rule virtual_index_in_range [OF assms(1,2)])
  have k': "?k' < length ?s" using assms(1) by (cases a) simp_all
  have v: "v = lerp100 ?s ?N" using assms(3) by (simp add: np_percentile_lerp [OF assms(1)])
  show lo: "?s ! ?k \<le> v" unfolding v by (rule lerp100_bounds(1) [OF s k])
  have "lerp100 ?s ?N \<le> ?s ! (min (?k + 1) (length ?s - 1))"
    by (rule lerp100_bounds(2) [OF s k])
  then show hi: "v \<le> ?s ! ?k'" unfolding v by simp
  show "v = ?s ! ?k + (?s ! ?k' - ?s ! ?k) * (real (?N mod 100) / 100)"
    unfolding v by (simp add: lerp100_eq)
  have "?k + 1 \<le> length (filter (\<lambda>x. x \<le> v) ?s)"
    by (rule filter_le_count [OF s k lo])
  then show "?k + 1 \<le> length (filter (\<lambda>x. x \<le> v) a)"
    by (simp add: length_filter_sort)
  have "length ?s - ?k' \<le> length (filter (\<lambda>x. v \<le> x) ?s)"
    by (rule filter_ge_count [OF s k' hi])
  then show "length a - ?k' \<le> length (filter (\<lambda>x. v \<le> x) a)"
    by (simp add: length_filter_sort)
qed

text \<open>The values that a reduction over the chain and draw axes sees.\<close>

lemma concat_nth_rect:
  assumes "\<forall>xs \<in> set xss. length xs = d" and "k < length xss * d"
  shows "concat xss ! k = xss ! (k div d) ! (k mod d)"
  using assms
proof (induction xss arbitrary: k)
  case Nil
  then show ?case by simp
next
  case (Cons xs xss)
  have d: "length xs = d" using Cons.prems(1) by simp
  have d0: "0 < d" using Cons.prems(2) by (cases d) auto
  show ?case
  proof (cases "k < d")
    case True
    then show ?thesis using d by (simp add: nth_append)
  next
    case False
    then have kd: "d \<le> k" by simp
    have "k - d < length xss * d" using Cons.prems(2) kd by simp
    then have IH: "concat xss ! (k - d) = xss ! ((k - d) div d) ! ((k - d) mod d)"
      using Cons.IH Cons.prems(1) by simp
    have dv: "k div d = Suc ((k - d) div d)" using kd d0
      by (metis div_add_self2 le_add_diff_inverse2 less_numeral_extra(3) Suc_eq_plus1)
    have md: "k mod d = (k - d) mod d" using kd by (simp add: le_mod_geq)
    show ?thesis using False d IH dv md by (simp add: nth_append)
  qed
qed

lemma length_concat_rect:
  "\<forall>xs \<in> set xss. length xs = d \<Longrightarrow> length (concat xss) = length xss * d"
  by (induction xss) simp_all

lemma wf_ndarray3_rect:
  assumes "wf_ndarray3 a" and "shape a = (nchain, ndraw, ntime)"
  shows "length (data a) = nchain"
    and "\<forall>ch \<in> set (data a). length ch = ndraw"
    and "\<forall>v \<in> set (concat (data a)). length v = ntime"
  using assms by (auto simp: wf_ndarray3_def)

lemma column_length:
  assumes "wf_ndarray3 a" and "shape a = (nchain, ndraw, ntime)"
  shows "length (column a j) = nchain * ndraw"
  using wf_ndarray3_rect(1) [OF assms] length_concat_rect [OF wf_ndarray3_rect(2) [OF assms]]
  by (simp add: column_def)

lemma column_nth:
  assumes "wf_ndarray3 a" and "shape a = (nchain, ndraw, ntime)"
    and "c < nchain" and "d < ndraw"
  shows "column a j ! (c * ndraw + d) = data a ! c ! d ! j"
proof -
  have "c * ndraw + d < Suc c * ndraw" using assms(4) by simp
  also have "\<dots> \<le> nchain * ndraw" using assms(3) by (intro mult_le_mono1) simp
  finally have k: "c * ndraw + d < length (data a) * ndraw"
    using wf_ndarray3_rect(1) [OF assms(1,2)] by simp
  have "concat (data a) ! (c * ndraw + d)
      = data a ! ((c * ndraw + d) div ndraw) ! ((c * ndraw + d) mod ndraw)"
    by (rule concat_nth_rect [OF wf_ndarray3_rect(2) [OF assms(1,2)] k])
  also have "\<dots> = data a ! c ! d" using assms(4) by simp
  finally have e: "concat (data a) ! (c * ndraw + d) = data a ! c ! d" .
  have "c * ndraw + d < length (concat (data a))"
    using k length_concat_rect [OF wf_ndarray3_rect(2) [OF assms(1,2)]] by simp
  then show ?thesis using e by (simp add: column_def)
qed

lemma sequence_err_map_Inr:
  "(\<And>x. x \<in> set xs \<Longrightarrow> f x = Inr (g x)) \<Longrightarrow> sequence_err (map f xs) = Inr (map g xs)"
  by (induction xs) simp_all

lemma reduce_axes01_returns:
  assumes "shape a = (nchain, ndraw, ntime)" and "0 < ntime"
    and "\<And>j. j < ntime \<Longrightarrow> f (column a j) = Inr (g j)"
  shows "reduce_axes01 f a = Inr (map g [0..<ntime])"
  using assms(1,2) sequence_err_map_Inr [of "[0..<ntime]" "\<lambda>j. f (column a j)" g] assms(3)
  by (simp add: reduce_axes01_def)

lemma reduce_axes01_cong:
  assumes "shape a = shape b" and "\<And>j. f (column a j) = f (column b j)"
  shows "reduce_axes01 f a = reduce_axes01 f b"
  using assms by (simp add: reduce_axes01_def split: prod.splits)

lemma np_median_mset: "mset x = mset y \<Longrightarrow> np_median x = np_median y"
proof -
  assume m: "mset x = mset y"
  have s: "sort x = sort y" using m by (simp add: properties_for_sort)
  have e: "(x = []) = (y = [])" using m by (metis mset_zero_iff)
  show ?thesis unfolding np_median_def s e ..
qed

lemma np_percentile_mset: "mset x = mset y \<Longrightarrow> np_percentile x q = np_percentile y q"
proof -
  assume m: "mset x = mset y"
  have s: "sort x = sort y" using m by (simp add: properties_for_sort)
  have e: "(x = []) = (y = [])" using m by (metis mset_zero_iff)
  have l: "length x = length y" using m by (rule mset_eq_length)
  show ?thesis unfolding np_percentile_def s e l ..
qed

lemma column_mset:
  "mset (concat (data a)) = mset (concat (data b)) \<Longrightarrow> mset (column a j) = mset (column b j)"
  by (simp add: column_def)

text \<open>
  Claim C7. The summary does not depend on the order of the posterior samples: two
  sample arrays of the same shape whose (chain, draw) light curves are a rearrangement of
  each other (equal as multisets, which covers a permutation of the chains, of the draws
  or of both) have the same median and the same 16th and 84th percentiles.
\<close>

theorem summary_permutation_invariant:
  assumes "shape a = shape b"
    and "mset (concat (data a)) = mset (concat (data b))"
  shows "summarize a = summarize b"
proof -
  have c: "mset (column a j) = mset (column b j)" for j
    by (rule column_mset [OF assms(2)])
  have "median_axes01 a = median_axes01 b"
    unfolding median_axes01_def
    by (rule reduce_axes01_cong [OF assms(1)]) (simp add: np_median_mset [OF c])
  moreover have "percentile_axes01 a q = percentile_axes01 b q" for q
    unfolding percentile_axes01_def
    by (rule reduce_axes01_cong [OF assms(1)]) (simp add: np_percentile_mset [OF c])
  ultimately show ?thesis by (simp add: summarize_def)
qed

text \<open>Permuting the chains, or the draws inside each chain, rearranges the samples.\<close>

lemma mset_concat_perm_chains:
  "mset xss = mset yss \<Longrightarrow> mset (concat xss) = mset (concat yss)"
proof -
  assume "mset xss = mset yss"
  then have "sum_mset (image_mset mset (mset xss)) = sum_mset (image_mset mset (mset yss))"
    by simp
  then show ?thesis by (simp add: mset_concat sum_mset_sum_list [symmetric])
qed

lemma mset_concat_perm_draws:
  assumes "length xss = length yss" and "\<forall>c<length xss. mset (xss ! c) = mset (yss ! c)"
  shows "mset (concat xss) = mset (concat yss)"
  using assms
proof (induction xss yss rule: list_induct2)
  case Nil
  then show ?case by simp
next
  case (Cons x xs y ys)
  have "mset x = mset y" using Cons.prems by (auto dest: spec [of _ 0])
  moreover have "\<forall>c<length xs. mset (xs ! c) = mset (ys ! c)"
    using Cons.prems by (auto dest: spec [of _ "Suc c" for c])
  ultimately show ?case using Cons.IH by simp
qed

text \<open>
  Claim C3. For a well-formed sample array with at least one chain and one draw the
  summary returns, and at every time index it holds the median of the values of all
  chains and draws there (at least half of them lie at or below it and at least half at
  or above it) and their 16th and 84th percentiles: each lies between the neighbours of
  its virtual index in the sorted values, at the fraction of that index, with the
  matching counts of values on each side. The median lies between the two percentiles.
  The two summary statements of the notebook bind these arrays.
\<close>

theorem summary_median_within_band:
  assumes "wf_ndarray3 a" and "shape a = (nchain, ndraw, ntime)"
    and "0 < nchain" and "0 < ndraw" and "j < ntime"
  shows "\<exists>s lo m hi.
           summarize a = Inr s
         \<and> length (lc_median s) = ntime \<and> length (lc_lo s) = ntime
         \<and> length (lc_hi s) = ntime
         \<and> lc_lo s ! j = lo \<and> lc_median s ! j = Some m \<and> lc_hi s ! j = hi
         \<and> np_percentile (column a j) 16 = Inr lo \<and> np_median (column a j) = Some m
         \<and> np_percentile (column a j) 84 = Inr hi
         \<and> lo \<le> m \<and> m \<le> hi
         \<and> length (column a j) = nchain * ndraw
         \<and> (\<forall>c<nchain. \<forall>d<ndraw. column a j ! (c * ndraw + d) = data a ! c ! d ! j)
         \<and> length (column a j) \<le> 2 * length (filter (\<lambda>x. x \<le> m) (column a j))
         \<and> length (column a j) \<le> 2 * length (filter (\<lambda>x. m \<le> x) (column a j))
         \<and> sort (column a j) ! (((nchain * ndraw - 1) * 16) div 100) \<le> lo
         \<and> lo \<le> sort (column a j)
                  ! (min (((nchain * ndraw - 1) * 16) div 100 + 1) (nchain * ndraw - 1))
         \<and> lo = sort (column a j) ! (((nchain * ndraw - 1) * 16) div 100)
                + (sort (column a j)
                     ! (min (((nchain * ndraw - 1) * 16) div 100 + 1) (nchain * ndraw - 1))
                   - sort (column a j) ! (((nchain * ndraw - 1) * 16) div 100))
                  * (real (((nchain * ndraw - 1) * 16) mod 100) / 100)
         \<and> ((nchain * ndraw - 1) * 16) div 100 + 1
              \<le> length (filter (\<lambda>x. x \<le> lo) (column a j))
         \<and> nchain * ndraw - min (((nchain * ndraw - 1) * 16) div 100 + 1) (nchain * ndraw - 1)
              \<le> length (filter (\<lambda>x. lo \<le> x) (column a j))
         \<and> sort (column a j) ! (((nchain * ndraw - 1) * 84) div 100) \<le> hi
         \<and> hi \<le> sort (column a j)
                  ! (min (((nchain * ndraw - 1) * 84) div 100 + 1) (nchain * ndraw - 1))
         \<and> hi = sort (column a j) ! (((nchain * ndraw - 1) * 84) div 100)
                + (sort (column a j)
                     ! (min (((nchain * ndraw - 1) * 84) div 100 + 1) (nchain * ndraw - 1))
                   - sort (column a j) ! (((nchain * ndraw - 1) * 84) div 100))
                  * (real (((nchain * ndraw - 1) * 84) mod 100) / 100)
         \<and> ((nchain * ndraw - 1) * 84) div 100 + 1
              \<le> length (filter (\<lambda>x. x \<le> hi) (column a j))
         \<and> nchain * ndraw - min (((nchain * ndraw - 1) * 84) div 100 + 1) (nchain * ndraw - 1)
              \<le> length (filter (\<lambda>x. hi \<le> x) (column a j))
         \<and> (\<forall>st. globals st ''lc_samps'' = Some (DataArray a) \<longrightarrow>
               (\<exists>st'. run [stmt_lc_median, stmt_lc_lo_hi] st = (None, st')
                  \<and> globals st' ''lc_median'' = Some (NanArray (lc_median s))
                  \<and> globals st' ''lc_lo'' = Some (Array (lc_lo s))
                  \<and> globals st' ''lc_hi'' = Some (Array (lc_hi s))))"
proof -
  let ?n = "nchain * ndraw"
  have len: "length (column a i) = ?n" for i
    by (rule column_length [OF assms(1,2)])
  have ne: "column a i \<noteq> []" for i
    using len [of i] assms(3,4) by auto
  have nt: "0 < ntime" using assms(5) by simp
  define md where "md = map (\<lambda>i. np_median (column a i)) [0..<ntime]"
  define lo where "lo = map (\<lambda>i. lerp100 (sort (column a i)) ((?n - 1) * 16)) [0..<ntime]"
  define hi where "hi = map (\<lambda>i. lerp100 (sort (column a i)) ((?n - 1) * 84)) [0..<ntime]"
  define s where "s = \<lparr>lc_median = md, lc_lo = lo, lc_hi = hi\<rparr>"
  have pq: "np_percentile (column a i) q = Inr (lerp100 (sort (column a i)) ((?n - 1) * q))"
    for i q
    using np_percentile_lerp [OF ne, of i q] by (simp add: len)
  have m_eq: "median_axes01 a = Inr md"
    unfolding median_axes01_def md_def
    by (rule reduce_axes01_returns [OF assms(2) nt]) simp
  have lo_eq: "percentile_axes01 a 16 = Inr lo"
    unfolding percentile_axes01_def lo_def
    by (rule reduce_axes01_returns [OF assms(2) nt]) (rule pq)
  have hi_eq: "percentile_axes01 a 84 = Inr hi"
    unfolding percentile_axes01_def hi_def
    by (rule reduce_axes01_returns [OF assms(2) nt]) (rule pq)
  have sm: "summarize a = Inr s"
    by (simp add: summarize_def m_eq lo_eq hi_eq bind_err_def s_def)
  have lens: "length (lc_median s) = ntime" "length (lc_lo s) = ntime"
    "length (lc_hi s) = ntime"
    by (simp_all add: s_def md_def lo_def hi_def)
  have at_j: "lc_median s ! j = np_median (column a j)"
    "np_percentile (column a j) 16 = Inr (lc_lo s ! j)"
    "np_percentile (column a j) 84 = Inr (lc_hi s ! j)"
    using assms(5) by (simp_all add: s_def md_def lo_def hi_def pq)
  obtain l m h where o: "np_percentile (column a j) 16 = Inr l"
    "np_median (column a j) = Some m" "np_percentile (column a j) 84 = Inr h"
    "l \<le> m" "m \<le> h"
    using percentile_median_order [OF ne] by blast
  have lh: "l = lc_lo s ! j" "h = lc_hi s ! j" using o(1,3) at_j(2,3) by simp_all
  have nth: "\<forall>c<nchain. \<forall>d<ndraw. column a j ! (c * ndraw + d) = data a ! c ! d ! j"
    using column_nth [OF assms(1,2)] by blast
  note b16 = percentile_bracket [OF ne _ at_j(2), unfolded len]
  note b84 = percentile_bracket [OF ne _ at_j(3), unfolded len]
  have stmts: "\<exists>st'. run [stmt_lc_median, stmt_lc_lo_hi] st = (None, st')
                  \<and> globals st' ''lc_median'' = Some (NanArray (lc_median s))
                  \<and> globals st' ''lc_lo'' = Some (Array (lc_lo s))
                  \<and> globals st' ''lc_hi'' = Some (Array (lc_hi s))"
    if "globals st ''lc_samps'' = Some (DataArray a)" for st
    using that
    by (simp add: stmt_lc_median_def stmt_lc_lo_hi_def load_data_array_def load_def
        attempt_def assign_def then_do_def ok_def m_eq lo_eq hi_eq s_def)
  show ?thesis
  proof (rule exI [of _ s], rule exI [of _ "lc_lo s ! j"], rule exI [of _ m],
      rule exI [of _ "lc_hi s ! j"], intro conjI)
    show "summarize a = Inr s" by (rule sm)
    show "length (lc_median s) = ntime" by (rule lens(1))
    show "length (lc_lo s) = ntime" by (rule lens(2))
    show "length (lc_hi s) = ntime" by (rule lens(3))
    show "lc_lo s ! j = lc_lo s ! j" by (rule refl)
    show "lc_hi s ! j = lc_hi s ! j" by (rule refl)
    show "lc_median s ! j = Some m" using at_j(1) o(2) by simp
    show "np_percentile (column a j) 16 = Inr (lc_lo s ! j)" by (rule at_j(2))
    show "np_percentile (column a j) 84 = Inr (lc_hi s ! j)" by (rule at_j(3))
    show "np_median (column a j) = Some m" by (rule o(2))
    show "lc_lo s ! j \<le> m" using o(4) lh by simp
    show "m \<le> lc_hi s ! j" using o(5) lh by simp
    show "length (column a j) = ?n" by (rule len)
    show "\<forall>c<nchain. \<forall>d<ndraw. column a j ! (c * ndraw + d) = data a ! c ! d ! j"
      by (rule nth)
    show "length (column a j) \<le> 2 * length (filter (\<lambda>x. x \<le> m) (column a j))"
      by (rule np_median_halves(1) [OF o(2)])
    show "length (column a j) \<le> 2 * length (filter (\<lambda>x. m \<le> x) (column a j))"
      by (rule np_median_halves(2) [OF o(2)])
    show "\<forall>st. globals st ''lc_samps'' = Some (DataArray a) \<longrightarrow>
               (\<exists>st'. run [stmt_lc_median, stmt_lc_lo_hi] st = (None, st')
                  \<and> globals st' ''lc_median'' = Some (NanArray (lc_median s))
                  \<and> globals st' ''lc_lo'' = Some (Array (lc_lo s))
                  \<and> globals st' ''lc_hi'' = Some (Array (lc_hi s)))"
      using stmts by blast
  qed (rule b16 b84; simp)+
qed

theorem summary_median_within_band_witness:
  "wf_ndarray3 \<lparr>shape = (2, 2, 2),
      data = [[[0.1, 0.5], [0.3, 0.2]], [[0.2, 0.4], [0.6, 0.1]]]\<rparr>
   \<and> (\<exists>s. summarize \<lparr>shape = (2, 2, 2),
            data = [[[0.1, 0.5], [0.3, 0.2]], [[0.2, 0.4], [0.6, 0.1]]]\<rparr> = Inr s
       \<and> lc_lo s ! 1 = 0.148 \<and> lc_median s ! 1 = Some 0.3 \<and> lc_hi s ! 1 = 0.452)"
proof -
  let ?a = "\<lparr>shape = (2, 2, 2),
      data = [[[0.1, 0.5], [0.3, 0.2]], [[0.2, 0.4], [0.6, 0.1 :: real]]]\<rparr>"
  have wf: "wf_ndarray3 ?a" by (simp add: wf_ndarray3_def)
  have sh: "shape ?a = (2, 2, 2)" by simp
  have col: "sort (column ?a 1) = [0.1, 0.2, 0.4, 0.5]" by (simp add: column_def)
  obtain s lo m hi where s: "summarize ?a = Inr s"
    and at: "lc_lo s ! 1 = lo" "lc_median s ! 1 = Some m" "lc_hi s ! 1 = hi"
    and md: "np_median (column ?a 1) = Some m"
    and lo: "lo = sort (column ?a 1) ! (((2 * 2 - 1) * 16) div 100)
                + (sort (column ?a 1)
                     ! (min (((2 * 2 - 1) * 16) div 100 + 1) (2 * 2 - 1))
                   - sort (column ?a 1) ! (((2 * 2 - 1) * 16) div 100))
                  * (real (((2 * 2 - 1) * 16) mod 100) / 100)"
    and hi: "hi = sort (column ?a 1) ! (((2 * 2 - 1) * 84) div 100)
                + (sort (column ?a 1)
                     ! (min (((2 * 2 - 1) * 84) div 100 + 1) (2 * 2 - 1))
                   - sort (column ?a 1) ! (((2 * 2 - 1) * 84) div 100))
                  * (real (((2 * 2 - 1) * 84) mod 100) / 100)"
    using summary_median_within_band [OF wf sh, of 1] by auto
  have "lo = 0.148" unfolding lo col by simp
  moreover have "hi = 0.452" unfolding hi col by simp
  moreover have "m = 0.3" using md by (simp add: np_median_def Let_def column_def)
  ultimately show ?thesis using wf s at by auto
qed

theorem summary_permutation_invariant_witness:
  "mset (concat [[[0.1, 0.5], [0.3, 0.2]], [[0.2, 0.4], [0.6, 0.1 :: real]]])
     = mset (concat [[[0.6, 0.1], [0.2, 0.4]], [[0.1, 0.5], [0.3, 0.2]]])
   \<and> summarize \<lparr>shape = (2, 2, 2),
         data = [[[0.1, 0.5], [0.3, 0.2]], [[0.2, 0.4], [0.6, 0.1]]]\<rparr>
     = summarize \<lparr>shape = (2, 2, 2),
         data = [[[0.6, 0.1], [0.2, 0.4]], [[0.1, 0.5], [0.3, 0.2]]]\<rparr>"
proof -
  let ?a = "\<lparr>shape = (2, 2, 2),
      data = [[[0.1, 0.5], [0.3, 0.2]], [[0.2, 0.4], [0.6, 0.1 :: real]]]\<rparr>"
  let ?b = "\<lparr>shape = (2, 2, 2),
      data = [[[0.6, 0.1], [0.2, 0.4]], [[0.1, 0.5], [0.3, 0.2 :: real]]]\<rparr>"
  have sh: "shape ?a = shape ?b" by simp
  have ms: "mset (concat (data ?a)) = mset (concat (data ?b))" by simp
  show ?thesis
    using ms summary_permutation_invariant [OF sh ms] by simp
qed

subsection \<open>Running statements\<close>

lemma invariant_ok: "invariant f ok"
  by (simp add: invariant_def ok_def)

lemma invariant_raise: "invariant f (raise e)"
  by (simp add: invariant_def raise_def)

lemma invariant_then_do:
  "invariant f s1 \<Longrightarrow> invariant f s2 \<Longrightarrow> invariant f (then_do s1 s2)"
  unfolding invariant_def then_do_def
  by (auto split: prod.splits option.splits) (metis snd_conv)+

lemma invariant_run: "list_all (invariant f) ss \<Longrightarrow> invariant f (run ss)"
  by (induction ss) (simp_all add: invariant_ok invariant_then_do)

lemma invariant_attempt: "(\<And>a. invariant f (k a)) \<Longrightarrow> invariant f (attempt r k)"
  by (cases r) (simp_all add: attempt_def invariant_raise)

lemma invariant_load: "(\<And>v. invariant f (k v)) \<Longrightarrow> invariant f (load x k)"
  unfolding invariant_def load_def raise_def by (auto split: option.splits)

lemma invariant_loads:
  "(\<And>d. invariant f (k1 d)) \<Longrightarrow> invariant f (load_frame x k1)"
  "(\<And>a. invariant f (k2 a)) \<Longrightarrow> invariant f (load_array x k2)"
  "(\<And>a. invariant f (k3 a)) \<Longrightarrow> invariant f (load_float x k3)"
  "(\<And>a. invariant f (k4 a)) \<Longrightarrow> invariant f (load_nan_array x k4)"
  "(\<And>a. invariant f (k5 a)) \<Longrightarrow> invariant f (load_tensor x k5)"
  "(\<And>a. invariant f (k6 a)) \<Longrightarrow> invariant f (load_orbit x k6)"
  "(\<And>a. invariant f (k7 a)) \<Longrightarrow> invariant f (load_model x k7)"
  "(\<And>a. invariant f (k8 a)) \<Longrightarrow> invariant f (load_trace x k8)"
  "(\<And>a. invariant f (k9 a)) \<Longrightarrow> invariant f (load_ppc x k9)"
  "(\<And>a. invariant f (k10 a)) \<Longrightarrow> invariant f (load_data_array x k10)"
  unfolding load_frame_def load_array_def load_float_def load_nan_array_def load_tensor_def
    load_orbit_def load_model_def load_trace_def load_ppc_def load_data_array_def
  by (rule invariant_load; simp add: invariant_raise split: pyval.splits)+

lemma run_append:
  "run (xs @ ys) st =
     (case run xs st of (Some e, st') \<Rightarrow> (Some e, st') | (None, st') \<Rightarrow> run ys st')"
  by (induction xs arbitrary: st) (auto simp: ok_def then_do_def split: prod.splits option.splits)



lemma invariant_prefix:
  "list_all (invariant f) ss \<Longrightarrow> f (snd (run (take n ss) st)) = f st"
proof -
  assume a: "list_all (invariant f) ss"
  have "list_all (invariant f) (take n ss)"
    using a by (auto simp: list_all_iff dest: in_set_takeD)
  then have "invariant f (run (take n ss))" by (rule invariant_run)
  then show ?thesis by (simp add: invariant_def)
qed

lemma invariant_suffix:
  assumes "list_all (invariant f) ys"
  shows "f (snd (run (xs @ ys) st)) = f (snd (run xs st))"
proof -
  have i: "invariant f (run ys)" using assms by (rule invariant_run)
  show ?thesis
    using i by (cases "run xs st") (auto simp: run_append invariant_def split: option.splits)
qed

subsection \<open>What the notebook writes and keeps\<close>

lemma keeps_assign: "x \<noteq> y \<Longrightarrow> invariant (\<lambda>st. globals st x) (assign y v)"
  by (simp add: invariant_def assign_def)

lemma keeps_lib_call:
  "(\<And>a. invariant (\<lambda>st. globals st x) (k a)) \<Longrightarrow> invariant (\<lambda>st. globals st x) (lib_call c r k)"
  unfolding invariant_def lib_call_def attempt_def raise_def
  by (cases r) simp_all

lemma writes_assign: "invariant files_written (assign y v)"
  by (simp add: invariant_def assign_def files_written_def)

lemma writes_lib_call:
  "(case c of Write_file f \<Rightarrow> False | _ \<Rightarrow> True) \<Longrightarrow> (\<And>a. invariant files_written (k a))
     \<Longrightarrow> invariant files_written (lib_call c r k)"
  unfolding invariant_def lib_call_def attempt_def raise_def
  by (cases r; cases c) (simp_all add: files_written_def)

lemmas invariant_rules = invariant_ok invariant_raise invariant_then_do invariant_run
  invariant_attempt invariant_loads

lemmas cell_defs = cell_d022fdfe_def cell_44fd8196_def stmt_values_def cell_5d7182a5_def
  stmt_time_norm_def stmt_flux_def cell_1b0b5589_def model_block_def register_def def_rv_def
  stmt_sample_def stmt_ppc_def summary_block_def stmt_lc_samps_def stmt_lc_median_def
  stmt_lc_lo_hi_def plot_block_def plot_stmt_def

lemmas exec_defs = run.simps then_do_def ok_def raise_def assign_def attempt_def lib_call_def
  load_def load_frame_def load_array_def load_float_def load_nan_array_def load_tensor_def
  load_orbit_def load_model_def load_trace_def load_ppc_def load_data_array_def

lemma keeps_later_cells:
  assumes "x = ''time'' \<or> x = ''mag'' \<or> x = ''merr'' \<or> x = ''df''"
  shows "list_all (invariant (\<lambda>st. globals st x)) (cell_5d7182a5 @ cell_1b0b5589 lib)"
  using assms
  by (auto simp add: cell_defs invariant_rules keeps_assign keeps_lib_call split: option.splits)

lemma writes_all_cells:
  "list_all (invariant files_written)
     (cell_d022fdfe @ cell_44fd8196 lib @ cell_5d7182a5 @ cell_1b0b5589 lib)"
  by (simp add: cell_defs invariant_rules writes_assign writes_lib_call split: option.splits)


lemma read_cell:
  assumes "pd_read_csv lib ''data/lc_obs.csv'' = Inr d"
    and "map_of d ''HJD'' = Some hjd" and "map_of d ''MAG'' = Some mg"
    and "map_of d ''MERR'' = Some me"
  shows "\<exists>st. run (cell_d022fdfe @ cell_44fd8196 lib) init_state = (None, st)
          \<and> globals st ''df'' = Some (DataFrame d)
          \<and> globals st ''time'' = Some (Array hjd)
          \<and> globals st ''mag'' = Some (Array mg)
          \<and> globals st ''merr'' = Some (Array me)"
  using assms
  by (simp add: cell_defs exec_defs init_state_def df_values_def)

text \<open>
  Claim C6. After the observation table is read, no statement of the preprocessing,
  model, summary or plotting code changes what the names \<open>time\<close>, \<open>mag\<close> and \<open>merr\<close>
  hold: after any number of the later statements, from any state, the three are as they
  were, and at the end of the notebook they are as the reading cell left them: the columns
  HJD, MAG and MERR of the table that was read. The later statements only bind other names.
\<close>

theorem parsed_arrays_never_modified:
  "globals (snd (run (take n (cell_5d7182a5 @ cell_1b0b5589 lib)) st)) ''time'' = globals st ''time''
 \<and> globals (snd (run (take n (cell_5d7182a5 @ cell_1b0b5589 lib)) st)) ''mag'' = globals st ''mag''
 \<and> globals (snd (run (take n (cell_5d7182a5 @ cell_1b0b5589 lib)) st)) ''merr'' = globals st ''merr''
 \<and> globals (snd (run (take n (cell_5d7182a5 @ cell_1b0b5589 lib)) st)) ''df'' = globals st ''df''
 \<and> globals (snd (notebook lib)) ''time''
      = globals (snd (run (cell_d022fdfe @ cell_44fd8196 lib) init_state)) ''time''
 \<and> globals (snd (notebook lib)) ''mag''
      = globals (snd (run (cell_d022fdfe @ cell_44fd8196 lib) init_state)) ''mag''
 \<and> globals (snd (notebook lib)) ''merr''
      = globals (snd (run (cell_d022fdfe @ cell_44fd8196 lib) init_state)) ''merr''
 \<and> (pd_read_csv lib ''data/lc_obs.csv'' = Inr d \<and> map_of d ''HJD'' = Some hjd
        \<and> map_of d ''MAG'' = Some mg \<and> map_of d ''MERR'' = Some me
      \<longrightarrow> globals (snd (notebook lib)) ''time'' = Some (Array hjd)
        \<and> globals (snd (notebook lib)) ''mag'' = Some (Array mg)
        \<and> globals (snd (notebook lib)) ''merr'' = Some (Array me)
        \<and> globals (snd (notebook lib)) ''df'' = Some (DataFrame d))"
proof -
  let ?read = "cell_d022fdfe @ cell_44fd8196 lib"
  let ?later = "cell_5d7182a5 @ cell_1b0b5589 lib"
  have nb: "notebook lib = run (?read @ ?later) init_state"
    by (simp add: notebook_def)
  have k: "list_all (invariant (\<lambda>st. globals st x)) ?later"
    if "x = ''time'' \<or> x = ''mag'' \<or> x = ''merr'' \<or> x = ''df''" for x
    by (rule keeps_later_cells [OF that])
  have pre: "globals (snd (run (take n ?later) st)) x = globals st x"
    if "x = ''time'' \<or> x = ''mag'' \<or> x = ''merr'' \<or> x = ''df''" for x
    by (rule invariant_prefix [OF k [OF that]])
  have fin: "globals (snd (notebook lib)) x = globals (snd (run ?read init_state)) x"
    if "x = ''time'' \<or> x = ''mag'' \<or> x = ''merr'' \<or> x = ''df''" for x
    unfolding nb by (rule invariant_suffix [OF k [OF that]])
  have asread: "globals (snd (notebook lib)) ''time'' = Some (Array hjd)
        \<and> globals (snd (notebook lib)) ''mag'' = Some (Array mg)
        \<and> globals (snd (notebook lib)) ''merr'' = Some (Array me)
        \<and> globals (snd (notebook lib)) ''df'' = Some (DataFrame d)"
    if "pd_read_csv lib ''data/lc_obs.csv'' = Inr d \<and> map_of d ''HJD'' = Some hjd
        \<and> map_of d ''MAG'' = Some mg \<and> map_of d ''MERR'' = Some me"
  proof -
    have h: "pd_read_csv lib ''data/lc_obs.csv'' = Inr d" "map_of d ''HJD'' = Some hjd"
      "map_of d ''MAG'' = Some mg" "map_of d ''MERR'' = Some me"
      using that by simp_all
    obtain st' where "run ?read init_state = (None, st')"
      "globals st' ''df'' = Some (DataFrame d)" "globals st' ''time'' = Some (Array hjd)"
      "globals st' ''mag'' = Some (Array mg)" "globals st' ''merr'' = Some (Array me)"
      using read_cell [OF h] by blast
    then show ?thesis by (simp add: fin)
  qed
  show ?thesis
    using pre [of "''time''"] pre [of "''mag''"] pre [of "''merr''"] pre [of "''df''"]
      fin [of "''time''"] fin [of "''mag''"] fin [of "''merr''"] asread
    by blast
qed

theorem parsed_arrays_never_modified_witness:
  "globals (snd (notebook
      \<lparr>pd_read_csv = (\<lambda>path. Inr [(''HJD'', [10, 10.5, 12]), (''MAG'', [12.5, 12.3, 12.4]),
              (''MERR'', [0.01, 0.02, 0.01])]),
          pm_sample = (\<lambda>m draws tune target_accept. Inr [[\<lambda>n. [0.1]]]),
          pm_sample_posterior_predictive = (\<lambda>m t vs seed. Inl (KeyError ''raw_lc'')),
          plt = (\<lambda>c. Inr ())\<rparr>)) ''time'' = Some (Array [10, 10.5, 12])
  \<and> globals (snd (notebook
      \<lparr>pd_read_csv = (\<lambda>path. Inr [(''HJD'', [10, 10.5, 12]), (''MAG'', [12.5, 12.3, 12.4]),
              (''MERR'', [0.01, 0.02, 0.01])]),
          pm_sample = (\<lambda>m draws tune target_accept. Inr [[\<lambda>n. [0.1]]]),
          pm_sample_posterior_predictive = (\<lambda>m t vs seed. Inl (KeyError ''raw_lc'')),
          plt = (\<lambda>c. Inr ())\<rparr>)) ''mag'' = Some (Array [12.5, 12.3, 12.4])
  \<and> globals (snd (notebook
      \<lparr>pd_read_csv = (\<lambda>path. Inr [(''HJD'', [10, 10.5, 12]), (''MAG'', [12.5, 12.3, 12.4]),
              (''MERR'', [0.01, 0.02, 0.01])]),
          pm_sample = (\<lambda>m draws tune target_accept. Inr [[\<lambda>n. [0.1]]]),
          pm_sample_posterior_predictive = (\<lambda>m t vs seed. Inl (KeyError ''raw_lc'')),
          plt = (\<lambda>c. Inr ())\<rparr>)) ''merr'' = Some (Array [0.01, 0.02, 0.01])"
proof -
  let ?d = "[(''HJD'', [10, 10.5, 12]), (''MAG'', [12.5, 12.3, 12.4]),
             (''MERR'', [0.01, 0.02, 0.01 :: real])]"
  let ?lib = "\<lparr>pd_read_csv = (\<lambda>path. Inr ?d),
          pm_sample = (\<lambda>m draws tune target_accept. Inr [[\<lambda>n. [0.1 :: real]]]),
          pm_sample_posterior_predictive = (\<lambda>m t vs seed. Inl (KeyError ''raw_lc'')),
          plt = (\<lambda>c. Inr ())\<rparr>"
  have h: "pd_read_csv ?lib ''data/lc_obs.csv'' = Inr ?d \<and> map_of ?d ''HJD'' = Some [10, 10.5, 12]
        \<and> map_of ?d ''MAG'' = Some [12.5, 12.3, 12.4] \<and> map_of ?d ''MERR'' = Some [0.01, 0.02, 0.01]"
    by simp
  show ?thesis
    using h parsed_arrays_never_modified [where n = 0 and st = init_state and lib = ?lib and d = ?d
        and hjd = "[10, 10.5, 12]" and mg = "[12.5, 12.3, 12.4]" and me = "[0.01, 0.02, 0.01]"]
    by blast
qed

text \<open>
  Claim C2. The notebook makes no call that writes a file, whatever the libraries
  return: neither \<open>data/lc_synth.csv\<close> nor \<open>data/uncertainties.csv\<close> is produced.
\<close>

theorem notebook_writes_no_file: "files_written (snd (notebook lib)) = []"
proof -
  have "invariant files_written
     (run (cell_d022fdfe @ cell_44fd8196 lib @ cell_5d7182a5 @ cell_1b0b5589 lib))"
    by (rule invariant_run [OF writes_all_cells])
  then have "files_written (snd (notebook lib)) = files_written init_state"
    by (simp add: invariant_def notebook_def)
  then show ?thesis by (simp add: files_written_def init_state_def)
qed

subsection \<open>From the CSV to the posterior\<close>

lemma preprocess_flux_Inr:
  assumes "preprocess_flux mg me = Inr f"
  shows "flux_err_of (flux_rel_of mg (np_median mg)) me = Inr (flux_err f)"
    and "flux_rel f = flux_rel_of mg (np_median mg)" and "mag0 f = np_median mg"
  using assms
  by (auto simp: preprocess_flux_def Let_def bind_err_def split: sum.splits)

lemma reach_model:
  assumes "pd_read_csv lib ''data/lc_obs.csv'' = Inr d"
    and "map_of d ''HJD'' = Some hjd" and "map_of d ''MAG'' = Some mg"
    and "map_of d ''MERR'' = Some me"
    and "preprocess_time hjd = Inr p" and "preprocess_flux mg me = Inr f"
  shows "\<exists>st1. run (cell_d022fdfe @ cell_44fd8196 lib @ cell_5d7182a5 @ model_block) init_state
              = (None, st1)
          \<and> globals st1 ''model''
              = Some (PmModel (transit_model (t_ref p) (t_norm p) (flux_rel f) (flux_err f)))
          \<and> globals st1 ''time'' = Some (Array hjd)
          \<and> globals st1 ''mag'' = Some (Array mg)
          \<and> globals st1 ''merr'' = Some (Array me)
          \<and> globals st1 ''t_norm'' = Some (Array (t_norm p))
          \<and> globals st1 ''flux_rel'' = Some (Array (flux_rel f))
          \<and> globals st1 ''flux_err'' = Some (Array (flux_err f))
          \<and> globals st1 ''trace'' = None
          \<and> calls st1 = [Read_csv ''data/lc_obs.csv'']"
  using assms(1-5) preprocess_flux_Inr [OF assms(6)]
  by (simp add: cell_defs exec_defs init_state_def df_values_def transit_model_def)


lemma member_assign: "invariant (\<lambda>st. x \<in> set (calls st)) (assign y v)"
  by (simp add: invariant_def assign_def)

lemma member_lib_call:
  "c \<noteq> x \<Longrightarrow> (\<And>a. invariant (\<lambda>st. x \<in> set (calls st)) (k a))
     \<Longrightarrow> invariant (\<lambda>st. x \<in> set (calls st)) (lib_call c r k)"
  unfolding invariant_def lib_call_def attempt_def raise_def
  by (cases r) auto

lemma notebook_split:
  "notebook lib = run (before_sampling lib @ stmt_sample lib # after_sampling lib) init_state"
  by (simp add: notebook_def cell_1b0b5589_def before_sampling_def after_sampling_def)

lemma keeps_after_sampling:
  "list_all (invariant (\<lambda>st. globals st ''trace'')) (after_sampling lib)"
  "list_all (invariant (\<lambda>st. Read_csv ''data/lc_obs.csv'' \<in> set (calls st))) (after_sampling lib)"
  "list_all (invariant (\<lambda>st. Pm_sample \<in> set (calls st))) (after_sampling lib)"
  "list_all (invariant (\<lambda>st. globals st ''model'')) (after_sampling lib)"
  by (simp_all add: after_sampling_def cell_defs invariant_rules keeps_assign keeps_lib_call
      member_assign member_lib_call split: option.splits)

lemma stmt_sample_returns:
  assumes "globals st1 ''model'' = Some (PmModel m)"
    and "pm_sample lib m 2000 1000 0.9 = Inr dr"
  shows "stmt_sample lib st1
     = (None, st1\<lparr>globals := (globals st1)(''trace'' \<mapsto>
                     InferenceData \<lparr>var_names = unobserved_names m, posterior = dr\<rparr>),
                  calls := calls st1 @ [Pm_sample]\<rparr>)"
  using assms by (simp add: stmt_sample_def exec_defs)


lemma transit_model_names:
  "unobserved_names (transit_model tr tn fr fe)
     = [''logP'', ''period'', ''phase'', ''tm'', ''r'', ''b'', ''log_rho_star'', ''rho_star'',
        ''log_rstar'', ''r_star'', ''u'', ''mean'']"
  by (simp add: unobserved_names_def transit_model_def)

lemma sample_vector_entry:
  "n \<in> set (var_names tr) \<Longrightarrow> map_of (sample_vector tr c k) n = Some ((posterior tr ! c ! k) n)"
  by (simp add: sample_vector_def map_of_map_restrict)

text \<open>
  Claim C1. When \<open>pd.read_csv('data/lc_obs.csv')\<close> returns a table with the columns HJD,
  MAG and MERR on which preprocessing returns, and the sampler returns draws for the model
  built from the table's arrays, the notebook ends with a trace that holds those draws;
  its variables include \<open>period\<close>, \<open>tm\<close>, \<open>r\<close> and \<open>b\<close>, and the parameter vector of every draw has
  an entry for each of the four.
\<close>

theorem fitter_posterior_parameters:
  assumes "pd_read_csv lib ''data/lc_obs.csv'' = Inr d"
    and "map_of d ''HJD'' = Some hjd" and "map_of d ''MAG'' = Some mg"
    and "map_of d ''MERR'' = Some me"
    and "preprocess_time hjd = Inr p" and "preprocess_flux mg me = Inr f"
    and "pm_sample lib (transit_model (t_ref p) (t_norm p) (flux_rel f) (flux_err f))
           2000 1000 0.9 = Inr dr"
  shows "\<exists>tr. globals (snd (notebook lib)) ''trace'' = Some (InferenceData tr)
           \<and> globals (snd (notebook lib)) ''model''
                = Some (PmModel (transit_model (t_ref p) (t_norm p) (flux_rel f) (flux_err f)))
           \<and> posterior tr = dr
           \<and> {''period'', ''tm'', ''r'', ''b''} \<subseteq> set (var_names tr)
           \<and> (\<forall>c<length dr. \<forall>k<length (dr ! c). \<forall>n \<in> {''period'', ''tm'', ''r'', ''b''}.
                 map_of (sample_vector tr c k) n = Some ((dr ! c ! k) n))
           \<and> Read_csv ''data/lc_obs.csv'' \<in> set (calls (snd (notebook lib)))
           \<and> Pm_sample \<in> set (calls (snd (notebook lib)))"
proof -
  let ?m = "transit_model (t_ref p) (t_norm p) (flux_rel f) (flux_err f)"
  let ?tr = "\<lparr>var_names = unobserved_names ?m, posterior = dr\<rparr>"
  obtain st1 where r1: "run (before_sampling lib) init_state = (None, st1)"
    and m: "globals st1 ''model'' = Some (PmModel ?m)"
    and c1: "calls st1 = [Read_csv ''data/lc_obs.csv'']"
    using reach_model [OF assms(1-6)] unfolding before_sampling_def by blast
  let ?st2 = "st1\<lparr>globals := (globals st1)(''trace'' \<mapsto> InferenceData ?tr),
                  calls := calls st1 @ [Pm_sample]\<rparr>"
  have r2: "run (before_sampling lib @ [stmt_sample lib]) init_state = (None, ?st2)"
    using r1 stmt_sample_returns [OF m assms(7)] by (simp add: run_append then_do_def ok_def)
  have nb: "notebook lib
      = run ((before_sampling lib @ [stmt_sample lib]) @ after_sampling lib) init_state"
    by (simp add: notebook_split)
  have fin: "f' (snd (notebook lib)) = f' ?st2"
    if "list_all (invariant f') (after_sampling lib)" for f' :: "state \<Rightarrow> 'b"
  proof -
    have "f' (snd (notebook lib))
        = f' (snd (run (before_sampling lib @ [stmt_sample lib]) init_state))"
      unfolding nb by (rule invariant_suffix [OF that])
    then show ?thesis by (simp only: r2 snd_conv)
  qed
  have t: "globals (snd (notebook lib)) ''trace'' = Some (InferenceData ?tr)"
    using fin [OF keeps_after_sampling(1)] by simp
  have md: "globals (snd (notebook lib)) ''model'' = Some (PmModel ?m)"
    using fin [OF keeps_after_sampling(4)] m by simp
  have rc: "Read_csv ''data/lc_obs.csv'' \<in> set (calls (snd (notebook lib)))"
    using fin [OF keeps_after_sampling(2)] c1 by simp
  have ps: "Pm_sample \<in> set (calls (snd (notebook lib)))"
    using fin [OF keeps_after_sampling(3)] by simp
  have names: "{''period'', ''tm'', ''r'', ''b''} \<subseteq> set (var_names ?tr)"
    by (simp add: transit_model_names)
  have vec: "map_of (sample_vector ?tr c k) n = Some ((dr ! c ! k) n)"
    if "n \<in> {''period'', ''tm'', ''r'', ''b''}" for c k n
    using sample_vector_entry [of n ?tr c k] names that by auto
  show ?thesis
    using t md rc ps names vec by (intro exI [of _ ?tr]) simp
qed


lemma preprocess_time_returns: "hjd \<noteq> [] \<Longrightarrow> \<exists>p. preprocess_time hjd = Inr p"
  by (simp add: preprocess_time_nonempty)

lemma preprocess_flux_returns:
  "length mg = length me \<Longrightarrow> mg \<noteq> [] \<Longrightarrow> \<exists>f. preprocess_flux mg me = Inr f"
  using np_median_Some [of mg] preprocess_flux_same_length [of mg me] by auto

theorem fitter_posterior_parameters_witness:
  "\<exists>tr. globals (snd (notebook
        \<lparr>pd_read_csv = (\<lambda>path. if path = ''data/lc_obs.csv''
            then Inr [(''HJD'', [10, 10.5, 12]), (''MAG'', [12.5, 12.3, 12.4]),
                      (''MERR'', [0.01, 0.02, 0.01])]
            else Inl (LibraryError ''FileNotFoundError'')),
         pm_sample = (\<lambda>m draws tune target_accept. Inr [[\<lambda>n. [0.1]]]),
         pm_sample_posterior_predictive = (\<lambda>m t vs seed. Inl (KeyError ''raw_lc'')),
         plt = (\<lambda>c. Inr ())\<rparr>)) ''trace'' = Some (InferenceData tr)
     \<and> {''period'', ''tm'', ''r'', ''b''} \<subseteq> set (var_names tr)
     \<and> map_of (sample_vector tr 0 0) ''period'' = Some [0.1]"
proof -
  let ?d = "[(''HJD'', [10, 10.5, 12]), (''MAG'', [12.5, 12.3, 12.4]),
             (''MERR'', [0.01, 0.02, 0.01 :: real])]"
  let ?lib = "\<lparr>pd_read_csv = (\<lambda>path. if path = ''data/lc_obs.csv'' then Inr ?d
            else Inl (LibraryError ''FileNotFoundError'')),
         pm_sample = (\<lambda>m draws tune target_accept. Inr [[\<lambda>n. [0.1 :: real]]]),
         pm_sample_posterior_predictive = (\<lambda>m t vs seed. Inl (KeyError ''raw_lc'')),
         plt = (\<lambda>c. Inr ())\<rparr>"
  obtain p where p: "preprocess_time [10, 10.5, 12] = Inr p"
    using preprocess_time_returns [of "[10, 10.5, 12]"] by auto
  obtain f where f: "preprocess_flux [12.5, 12.3, 12.4] [0.01, 0.02, 0.01] = Inr f"
    using preprocess_flux_returns [of "[12.5, 12.3, 12.4]" "[0.01, 0.02, 0.01]"] by auto
  have rd: "pd_read_csv ?lib ''data/lc_obs.csv'' = Inr ?d" by simp
  have sm: "pm_sample ?lib (transit_model (t_ref p) (t_norm p) (flux_rel f) (flux_err f))
              2000 1000 0.9 = Inr [[\<lambda>n. [0.1]]]" by simp
  have c: "map_of ?d ''HJD'' = Some [10, 10.5, 12]" "map_of ?d ''MAG'' = Some [12.5, 12.3, 12.4]"
    "map_of ?d ''MERR'' = Some [0.01, 0.02, 0.01]" by simp_all
  show ?thesis
    using fitter_posterior_parameters [OF rd c p f sm] by fastforce
qed

subsection \<open>Exceptions\<close>






end
